theory Spec2Isabelle
  imports Main
begin

section \<open>Shared data model\<close>

text \<open>
  The repository wraps gorilla/sessions with two stores (redis/redistore.go and the
  document store) and a per-request \<open>Session\<close> handle. Go values held behind
  \<open>interface{}\<close> are a tagged union; a \<open>time.Time\<close> is a number of
  nanoseconds.
\<close>

datatype val = VNil | VBool bool | VInt int | VStr string | VTime nat

type_synonym value_map = "val \<rightharpoonup> val"

text \<open>
  Errors are values. \<open>ErrorsNew\<close> is \<open>errors.New\<close> with the message of the
  source; the other constructors are the errors of the libraries the code calls:
  \<open>redis.Nil\<close>, a failed connection, a securecookie failure, \<open>http.ErrNoCookie\<close>
  and \<open>mgo.ErrNotFound\<close>.
\<close>

datatype error =
    ErrorsNew string
  | RedisNil
  | ConnError string
  | CodecError string
  | ErrNoCookie
  | MgoErrNotFound

text \<open>A panic stops the call: an explicit \<open>panic(msg)\<close> or a run-time error.\<close>

datatype panic =
    Panic string
  | IndexOutOfRange nat nat
  | NilPointerDereference

text \<open>\<open>sessions.Options\<close>; the wrapper's own \<open>Options\<close> has the same fields.\<close>

record Options =
  Path :: string
  Domain :: string
  MaxAge :: int
  Secure :: bool
  HttpOnly :: bool

text \<open>
  \<open>sessions.Session\<close> of gorilla: the fields the stores read and write. The private
  field \<open>name\<close> is read through \<open>Name()\<close>.
\<close>

record sessions_Session =
  ID :: string
  Values :: value_map
  SessionOptions :: Options
  IsNew :: bool
  Name :: string

text \<open>\<open>sessions.NewSession(store, name)\<close>: empty id, empty values, zero options.\<close>

definition NewSession :: "string \<Rightarrow> sessions_Session" where
  "NewSession nm =
     \<lparr>ID = [], Values = Map.empty,
      SessionOptions = \<lparr>Path = [], Domain = [], MaxAge = 0, Secure = False, HttpOnly = False\<rparr>,
      IsNew = False, Name = nm\<rparr>"

text \<open>
  The request carries cookies as (name, value) pairs in header order; \<open>r.Cookie(name)\<close>
  returns the first one of that name or \<open>http.ErrNoCookie\<close>. The response collects
  the cookies that \<open>http.SetCookie\<close> adds, in order.
\<close>

record http_Request =
  Cookies :: "(string \<times> string) list"

record http_Cookie =
  CookieName :: string
  CookieValue :: string
  CookieOptions :: Options

type_synonym http_ResponseWriter = "http_Cookie list"

definition Cookie :: "http_Request \<Rightarrow> string \<Rightarrow> error + string" where
  "Cookie r nm = (case map_of (Cookies r) nm of None \<Rightarrow> Inl ErrNoCookie | Some v \<Rightarrow> Inr v)"

definition NewCookie :: "string \<Rightarrow> string \<Rightarrow> Options \<Rightarrow> http_Cookie" where
  "NewCookie nm v opts = \<lparr>CookieName = nm, CookieValue = v, CookieOptions = opts\<rparr>"

definition SetCookie :: "http_ResponseWriter \<Rightarrow> http_Cookie \<Rightarrow> http_ResponseWriter" where
  "SetCookie w c = w @ [c]"

text \<open>
  The codec list of a store, as the two securecookie entry points the code calls with it:
  \<open>EncodeMulti(name, v, codecs...)\<close> and \<open>DecodeMulti(name, s, &dst, codecs...)\<close>, once
  for a session id (a string) and once for the values map. Both either fail or give the
  result; a failed decode leaves its destination as it was. The keys, the signature and the
  age check live inside these functions, which every theorem below leaves arbitrary.
\<close>

record Codec =
  EncodeID :: "string \<Rightarrow> string \<Rightarrow> error + string"
  DecodeID :: "string \<Rightarrow> string \<Rightarrow> error + string"
  EncodeValues :: "string \<Rightarrow> value_map \<Rightarrow> error + string"
  DecodeValues :: "string \<Rightarrow> string \<Rightarrow> error + value_map"

section \<open>The cache backend as the client library shows it\<close>

text \<open>
  The server holds a value and an optional expiry (in nanoseconds) per key. When
  \<open>unreachable\<close> is \<open>Some e\<close> no command reaches it: every \<open>Result()\<close> is the zero
  value together with \<open>e\<close>. \<open>pong\<close> is what the server answers to PING.
\<close>

record redis =
  kv :: "string \<rightharpoonup> (string \<times> int option)"
  unreachable :: "error option"
  pong :: string

definition Ping_Result :: "redis \<Rightarrow> string \<times> error option" where
  "Ping_Result srv =
     (case unreachable srv of Some e \<Rightarrow> ([], Some e) | None \<Rightarrow> (pong srv, None))"

definition Get_Result :: "redis \<Rightarrow> string \<Rightarrow> string \<times> error option" where
  "Get_Result srv k =
     (case unreachable srv of
        Some e \<Rightarrow> ([], Some e)
      | None \<Rightarrow> (case kv srv k of None \<Rightarrow> ([], Some RedisNil) | Some (v, t) \<Rightarrow> (v, None)))"

text \<open>\<open>Set\<close> sends an expiry only when the duration is positive.\<close>

definition Set_Result :: "redis \<Rightarrow> string \<Rightarrow> string \<Rightarrow> int \<Rightarrow> (string \<times> error option) \<times> redis" where
  "Set_Result srv k v d =
     (case unreachable srv of
        Some e \<Rightarrow> (([], Some e), srv)
      | None \<Rightarrow> ((''OK'', None), srv\<lparr>kv := (kv srv)(k \<mapsto> (v, if 0 < d then Some d else None))\<rparr>))"

definition Del_Result :: "redis \<Rightarrow> string \<Rightarrow> (int \<times> error option) \<times> redis" where
  "Del_Result srv k =
     (case unreachable srv of
        Some e \<Rightarrow> ((0, Some e), srv)
      | None \<Rightarrow> ((if kv srv k = None then 0 else 1, None), srv\<lparr>kv := (kv srv)(k := None)\<rparr>))"

text \<open>\<open>time.Duration(age) * time.Second\<close> on 64-bit signed integers.\<close>

definition wrap64 :: "int \<Rightarrow> int" where
  "wrap64 x = (x + 2 ^ 63) mod 2 ^ 64 - 2 ^ 63"

definition Seconds :: "int \<Rightarrow> int" where
  "Seconds age = wrap64 (age * 1000000000)"

text \<open>The two client handles: the options they were made with and whether they are closed.\<close>

record redis_Client =
  Addr :: string
  PoolSize :: int
  DialTimeout :: int
  Password :: string
  closed :: bool

record redis_ClusterClient =
  Addrs :: "string list"
  ClusterPoolSize :: int
  ClusterDialTimeout :: int
  ClusterPassword :: string
  cluster_closed :: bool

section \<open>redis/redistore.go\<close>

definition sessionExpire :: int where
  "sessionExpire = 86400 * 30"

record RediStore =
  Client :: "redis_Client option"
  ClusterClient :: "redis_ClusterClient option"
  Codecs :: Codec
  StoreOptions :: Options
  DefaultMaxAge :: int
  maxLength :: int
  keyPrefix :: string
  IsCluster :: bool

definition SetMaxLength :: "RediStore \<Rightarrow> int \<Rightarrow> RediStore" where
  "SetMaxLength s l = (if l \<ge> 0 then s\<lparr>maxLength := l\<rparr> else s)"

definition SetKeyPrefix :: "RediStore \<Rightarrow> string \<Rightarrow> RediStore" where
  "SetKeyPrefix s p = s\<lparr>keyPrefix := p\<rparr>"

text \<open>
  The client a command goes through: the \<open>IsCluster\<close> switch of \<open>ping\<close>, \<open>save\<close>,
  \<open>load\<close> and \<open>delete\<close> picks the field, and a nil field panics.
\<close>

definition client_of :: "RediStore \<Rightarrow> panic + unit" where
  "client_of s =
     (if IsCluster s
      then (case ClusterClient s of None \<Rightarrow> Inl NilPointerDereference | Some c \<Rightarrow> Inr ())
      else (case Client s of None \<Rightarrow> Inl NilPointerDereference | Some c \<Rightarrow> Inr ()))"

definition ping :: "RediStore \<Rightarrow> redis \<Rightarrow> panic + (bool \<times> error option)" where
  "ping s srv =
     (case client_of s of
        Inl p \<Rightarrow> Inl p
      | Inr u \<Rightarrow>
          (case Ping_Result srv of
             (data, err) \<Rightarrow>
               if err \<noteq> None \<or> data = [] then Inr (False, err)
               else Inr (data = ''PONG'', None)))"

text \<open>
  \<open>NewRediStore\<close>. \<open>cfp\<close> is \<open>securecookie.CodecsFromPairs\<close>. The result is a panic, or
  the store together with the error of the ping.
\<close>

definition NewRediStore ::
  "(string list \<Rightarrow> Codec) \<Rightarrow> bool \<Rightarrow> int \<Rightarrow> string list \<Rightarrow> string \<Rightarrow> string list \<Rightarrow> redis
     \<Rightarrow> panic + (RediStore \<times> error option)" where
  "NewRediStore cfp isCluster poolsize address password keyPairs srv =
     (if isCluster then
        (if length address < 6
         then Inl (Panic ''cluster mode. redis cluster address error. count < 6'')
         else
           (let client = \<lparr>Addrs = address, ClusterPoolSize = poolsize, ClusterDialTimeout = Seconds 10,
                           ClusterPassword = password, cluster_closed = False\<rparr>;
                rs = \<lparr>Client = None, ClusterClient = Some client, Codecs = cfp keyPairs,
                       StoreOptions = \<lparr>Path = ''/'', Domain = [], MaxAge = sessionExpire,
                                        Secure = False, HttpOnly = False\<rparr>,
                       DefaultMaxAge = 60 * 30, maxLength = 4096, keyPrefix = ''session_'',
                       IsCluster = True\<rparr>
            in (case ping rs srv of Inl p \<Rightarrow> Inl p | Inr (ok, err) \<Rightarrow> Inr (rs, err))))
      else
        (if length address > 1
         then Inl (Panic ''single mode. redis address error. count > 1'')
         else
           (case address of
              [] \<Rightarrow> Inl (IndexOutOfRange 0 0)
            | a # rest \<Rightarrow>
                (let client = \<lparr>Addr = a, PoolSize = poolsize, DialTimeout = Seconds 10,
                                Password = password, closed = False\<rparr>;
                     rs = \<lparr>Client = Some client, ClusterClient = None, Codecs = cfp keyPairs,
                            StoreOptions = \<lparr>Path = ''/'', Domain = [], MaxAge = sessionExpire,
                                             Secure = False, HttpOnly = False\<rparr>,
                            DefaultMaxAge = 60 * 30, maxLength = 4096, keyPrefix = ''session_'',
                            IsCluster = False\<rparr>
                 in (case ping rs srv of Inl p \<Rightarrow> Inl p | Inr (ok, err) \<Rightarrow> Inr (rs, err))))))"

text \<open>
  \<open>Close\<close> calls \<open>Close\<close> on the single-node client whatever the mode. A closed client
  answers \<open>redis: client is closed\<close>.
\<close>

definition Close :: "RediStore \<Rightarrow> panic + (error option \<times> RediStore)" where
  "Close s =
     (case Client s of
        None \<Rightarrow> Inl NilPointerDereference
      | Some c \<Rightarrow>
          Inr (if closed c then Some (ErrorsNew ''redis: client is closed'') else None,
               s\<lparr>Client := Some (c\<lparr>closed := True\<rparr>)\<rparr>))"

text \<open>
  \<open>load\<close>: the error of the \<open>Get\<close> is assigned and never read; an empty reply
  returns nil, and from there on \<open>err\<close> is the error of the decode. Decoding fills the
  map the session already has.
\<close>

definition RediStore_load ::
  "RediStore \<Rightarrow> sessions_Session \<Rightarrow> redis \<Rightarrow> panic + (error option \<times> sessions_Session)" where
  "RediStore_load s session srv =
     (case client_of s of
        Inl p \<Rightarrow> Inl p
      | Inr u \<Rightarrow>
          (case Get_Result srv (keyPrefix s @ ID session) of
             (data, err) \<Rightarrow>
               if data = [] then Inr (None, session)
               else
                 (case DecodeValues (Codecs s) (Name session) data of
                    Inl e \<Rightarrow> Inr (Some e, session)
                  | Inr v \<Rightarrow> Inr (None, session\<lparr>Values := Values session ++ v\<rparr>))))"

definition RediStore_save ::
  "RediStore \<Rightarrow> sessions_Session \<Rightarrow> redis \<Rightarrow> panic + (error option \<times> redis)" where
  "RediStore_save s session srv =
     (case EncodeValues (Codecs s) (Name session) (Values session) of
        Inl e \<Rightarrow> Inr (Some e, srv)
      | Inr encoded \<Rightarrow>
          if maxLength s \<noteq> 0 \<and> int (length encoded) > maxLength s
          then Inr (Some (ErrorsNew ''SessionStore: the value to store is too big''), srv)
          else
            (let age = MaxAge (SessionOptions session);
                 age = (if age = 0 then DefaultMaxAge s else age)
             in (case client_of s of
                   Inl p \<Rightarrow> Inl p
                 | Inr u \<Rightarrow>
                     (case Set_Result srv (keyPrefix s @ ID session) encoded (Seconds age) of
                        ((reply, err), srv') \<Rightarrow> Inr (err, srv')))))"

definition RediStore_delete ::
  "RediStore \<Rightarrow> sessions_Session \<Rightarrow> redis \<Rightarrow> panic + (error option \<times> redis)" where
  "RediStore_delete s session srv =
     (case client_of s of
        Inl p \<Rightarrow> Inl p
      | Inr u \<Rightarrow>
          (case Del_Result srv (keyPrefix s @ ID session) of
             ((n, err), srv') \<Rightarrow> Inr (err, srv')))"

text \<open>
  \<open>New\<close>. The cookie error has a name of its own (\<open>errCookie\<close>), so the \<open>err\<close> that is
  returned is the one of the decode or of \<open>load\<close>.
\<close>

definition RediStore_New ::
  "RediStore \<Rightarrow> http_Request \<Rightarrow> string \<Rightarrow> redis \<Rightarrow> panic + (sessions_Session \<times> error option)" where
  "RediStore_New s r nm srv =
     (let session = (NewSession nm)\<lparr>SessionOptions := StoreOptions s, IsNew := True\<rparr>
      in (case Cookie r nm of
            Inl errCookie \<Rightarrow> Inr (session, None)
          | Inr c \<Rightarrow>
              (case DecodeID (Codecs s) nm c of
                 Inl err \<Rightarrow> Inr (session, Some err)
               | Inr sid \<Rightarrow>
                   (case RediStore_load s (session\<lparr>ID := sid\<rparr>) srv of
                      Inl p \<Rightarrow> Inl p
                    | Inr (err, session') \<Rightarrow>
                        Inr (session'\<lparr>IsNew := \<not> (err = None)\<rparr>, err)))))"

text \<open>
  \<open>Save\<close>. \<open>fresh\<close> is the id the random source gives: 32 random bytes in base32 with the
  padding trimmed. The result is the error, the session (its id may have been assigned),
  the response and the server.
\<close>

definition RediStore_Save ::
  "RediStore \<Rightarrow> string \<Rightarrow> http_Request \<Rightarrow> http_ResponseWriter \<Rightarrow> sessions_Session \<Rightarrow> redis
     \<Rightarrow> panic + (error option \<times> sessions_Session \<times> http_ResponseWriter \<times> redis)" where
  "RediStore_Save s fresh r w session srv =
     (if MaxAge (SessionOptions session) < 0 then
        (case RediStore_delete s session srv of
           Inl p \<Rightarrow> Inl p
         | Inr (Some e, srv') \<Rightarrow> Inr (Some e, session, w, srv')
         | Inr (None, srv') \<Rightarrow>
             Inr (None, session,
                  SetCookie w (NewCookie (Name session) [] (SessionOptions session)), srv'))
      else
        (let session = (if ID session = [] then session\<lparr>ID := fresh\<rparr> else session)
         in (case RediStore_save s session srv of
               Inl p \<Rightarrow> Inl p
             | Inr (Some e, srv') \<Rightarrow> Inr (Some e, session, w, srv')
             | Inr (None, srv') \<Rightarrow>
                 (case EncodeID (Codecs s) (Name session) (ID session) of
                    Inl e \<Rightarrow> Inr (Some e, session, w, srv')
                  | Inr encoded \<Rightarrow>
                      Inr (None, session,
                           SetCookie w (NewCookie (Name session) encoded (SessionOptions session)),
                           srv')))))"

section \<open>The document backend as the driver shows it\<close>

text \<open>
  \<open>encoding/hex\<close>: a digit in either case has a value; a string of an even number of
  digits decodes to one byte per pair.
\<close>

definition fromHexChar :: "char \<Rightarrow> nat option" where
  "fromHexChar c =
     (let n = (of_char c :: nat) in
      if 48 \<le> n \<and> n \<le> 57 then Some (n - 48)
      else if 97 \<le> n \<and> n \<le> 102 then Some (n - 97 + 10)
      else if 65 \<le> n \<and> n \<le> 70 then Some (n - 65 + 10)
      else None)"

fun DecodeString :: "string \<Rightarrow> string option" where
  "DecodeString [] = Some []"
| "DecodeString [c] = None"
| "DecodeString (a # b # cs) =
     (case fromHexChar a of
        None \<Rightarrow> None
      | Some x \<Rightarrow>
          (case fromHexChar b of
             None \<Rightarrow> None
           | Some y \<Rightarrow>
               (case DecodeString cs of
                  None \<Rightarrow> None
                | Some d \<Rightarrow> Some (char_of (16 * x + y) # d))))"

definition hextable :: string where
  "hextable = ''0123456789abcdef''"

fun EncodeToString :: "string \<Rightarrow> string" where
  "EncodeToString [] = []"
| "EncodeToString (c # cs) =
     hextable ! ((of_char c :: nat) div 16) # hextable ! ((of_char c :: nat) mod 16)
       # EncodeToString cs"

text \<open>
  \<open>bson\<close>: an \<open>ObjectId\<close> is a string of 12 raw bytes. \<open>IsObjectIdHex\<close> asks for 24
  hexadecimal digits, \<open>ObjectIdHex\<close> panics on anything else, \<open>Hex\<close> prints an id.
\<close>

definition IsObjectIdHex :: "string \<Rightarrow> bool" where
  "IsObjectIdHex s = (if length s \<noteq> 24 then False else DecodeString s \<noteq> None)"

definition ObjectIdHex :: "string \<Rightarrow> panic + string" where
  "ObjectIdHex s =
     (case DecodeString s of
        None \<Rightarrow> Inl (Panic (''invalid input to ObjectIdHex: '' @ s))
      | Some d \<Rightarrow>
          if length d \<noteq> 12 then Inl (Panic (''invalid input to ObjectIdHex: '' @ s))
          else Inr d)"

definition Hex :: "string \<Rightarrow> string" where
  "Hex oid = EncodeToString oid"

record SessionItem =
  Id :: string
  Data :: string
  Modified :: nat

text \<open>
  The collection \<open>test.session_test\<close>: one document per id, and the expiry of the index on
  \<open>modified\<close> when one was ensured. When \<open>db_unreachable\<close> is \<open>Some e\<close> every operation
  returns \<open>e\<close> and changes nothing. In safe mode \<open>RemoveId\<close> and \<open>One\<close> return
  \<open>mgo.ErrNotFound\<close> when no document has the id.
\<close>

record mongo =
  docs :: "string \<rightharpoonup> SessionItem"
  ttl_index :: "int option"
  db_unreachable :: "error option"

definition FindId_One :: "mongo \<Rightarrow> string \<Rightarrow> error + SessionItem" where
  "FindId_One db oid =
     (case db_unreachable db of
        Some e \<Rightarrow> Inl e
      | None \<Rightarrow> (case docs db oid of None \<Rightarrow> Inl MgoErrNotFound | Some item \<Rightarrow> Inr item))"

definition UpsertId :: "mongo \<Rightarrow> string \<Rightarrow> SessionItem \<Rightarrow> error option \<times> mongo" where
  "UpsertId db oid item =
     (case db_unreachable db of
        Some e \<Rightarrow> (Some e, db)
      | None \<Rightarrow> (None, db\<lparr>docs := (docs db)(oid \<mapsto> item)\<rparr>))"

definition RemoveId :: "mongo \<Rightarrow> string \<Rightarrow> error option \<times> mongo" where
  "RemoveId db oid =
     (case db_unreachable db of
        Some e \<Rightarrow> (Some e, db)
      | None \<Rightarrow>
          (case docs db oid of
             None \<Rightarrow> (Some MgoErrNotFound, db)
           | Some item \<Rightarrow> (None, db\<lparr>docs := (docs db)(oid := None)\<rparr>)))"

definition EnsureIndex :: "mongo \<Rightarrow> int \<Rightarrow> mongo" where
  "EnsureIndex db expireAfter =
     (case db_unreachable db of Some e \<Rightarrow> db | None \<Rightarrow> db\<lparr>ttl_index := Some expireAfter\<rparr>)"

section \<open>The document store\<close>

definition ErrInvalidId :: error where
  "ErrInvalidId = ErrorsNew ''mgostore: invalid session id''"

text \<open>
  \<open>MongoStore\<close>. The shared \<open>*mgo.Session\<close> is the database the operations below take and
  return; cloning and closing the handle per operation leaves the documents alone.
\<close>

record MongoStore =
  MongoCodecs :: Codec
  MongoOptions :: Options

definition NewMongoStore ::
  "(string list \<Rightarrow> Codec) \<Rightarrow> mongo \<Rightarrow> int \<Rightarrow> bool \<Rightarrow> string list \<Rightarrow> MongoStore \<times> mongo" where
  "NewMongoStore cfp db maxAge ensureTTL keyPairs =
     (let store = \<lparr>MongoCodecs = cfp keyPairs,
                    MongoOptions = \<lparr>Path = ''/'', Domain = [], MaxAge = maxAge,
                                     Secure = False, HttpOnly = False\<rparr>\<rparr>
      in (store, if ensureTTL then EnsureIndex db (Seconds maxAge) else db))"

definition MongoStore_load ::
  "MongoStore \<Rightarrow> sessions_Session \<Rightarrow> mongo \<Rightarrow> panic + (error option \<times> sessions_Session)" where
  "MongoStore_load m session db =
     (if \<not> IsObjectIdHex (ID session) then Inr (Some ErrInvalidId, session)
      else
        (case ObjectIdHex (ID session) of
           Inl p \<Rightarrow> Inl p
         | Inr oid \<Rightarrow>
             (case FindId_One db oid of
                Inl err \<Rightarrow> Inr (Some err, session)
              | Inr item \<Rightarrow>
                  (case DecodeValues (MongoCodecs m) (Name session) (Data item) of
                     Inl err \<Rightarrow> Inr (Some err, session)
                   | Inr v \<Rightarrow> Inr (None, session\<lparr>Values := Values session ++ v\<rparr>)))))"

text \<open>
  \<open>upsert\<close>. \<open>now\<close> is \<open>time.Now()\<close>. The type assertion \<open>val.(time.Time)\<close> fails on
  every value that is not a time, nil included.
\<close>

definition MongoStore_upsert ::
  "MongoStore \<Rightarrow> nat \<Rightarrow> sessions_Session \<Rightarrow> mongo \<Rightarrow> panic + (error option \<times> mongo)" where
  "MongoStore_upsert m now session db =
     (if \<not> IsObjectIdHex (ID session) then Inr (Some ErrInvalidId, db)
      else
        (case (case Values session (VStr ''modified'') of
                 Some v \<Rightarrow>
                   (case v of
                      VTime t \<Rightarrow> Inr t
                    | _ \<Rightarrow> Inl (ErrorsNew ''mongostore: invalid modified value''))
               | None \<Rightarrow> Inr now) of
           Inl err \<Rightarrow> Inr (Some err, db)
         | Inr modified \<Rightarrow>
             (case EncodeValues (MongoCodecs m) (Name session) (Values session) of
                Inl err \<Rightarrow> Inr (Some err, db)
              | Inr encoded \<Rightarrow>
                  (case ObjectIdHex (ID session) of
                     Inl p \<Rightarrow> Inl p
                   | Inr oid \<Rightarrow>
                       (case UpsertId db oid \<lparr>Id = oid, Data = encoded, Modified = modified\<rparr> of
                          (err, db') \<Rightarrow> Inr (err, db'))))))"

definition MongoStore_delete ::
  "MongoStore \<Rightarrow> sessions_Session \<Rightarrow> mongo \<Rightarrow> panic + (error option \<times> mongo)" where
  "MongoStore_delete m session db =
     (if \<not> IsObjectIdHex (ID session) then Inr (Some ErrInvalidId, db)
      else
        (case ObjectIdHex (ID session) of
           Inl p \<Rightarrow> Inl p
         | Inr oid \<Rightarrow> (case RemoveId db oid of (err, db') \<Rightarrow> Inr (err, db'))))"

text \<open>
  \<open>New\<close>. The \<open>err\<close> of the \<open>if\<close> statement shadows the outer one, which stays nil: the
  store returns no error, whatever the decode and \<open>load\<close> did.
\<close>

definition MongoStore_New ::
  "MongoStore \<Rightarrow> http_Request \<Rightarrow> string \<Rightarrow> mongo \<Rightarrow> panic + (sessions_Session \<times> error option)" where
  "MongoStore_New m r nm db =
     (let session = (NewSession nm)
            \<lparr>SessionOptions := \<lparr>Path = Path (MongoOptions m), Domain = Domain (MongoOptions m),
                                MaxAge = MaxAge (MongoOptions m), Secure = Secure (MongoOptions m),
                                HttpOnly = HttpOnly (MongoOptions m)\<rparr>,
             IsNew := True\<rparr>
      in (case Cookie r nm of
            Inl err \<Rightarrow> Inr (session, None)
          | Inr cookieVal \<Rightarrow>
              (case DecodeID (MongoCodecs m) nm cookieVal of
                 Inl err \<Rightarrow> Inr (session, None)
               | Inr sid \<Rightarrow>
                   (case MongoStore_load m (session\<lparr>ID := sid\<rparr>) db of
                      Inl p \<Rightarrow> Inl p
                    | Inr (None, session') \<Rightarrow> Inr (session'\<lparr>IsNew := False\<rparr>, None)
                    | Inr (Some err, session') \<Rightarrow> Inr (session', None)))))"

text \<open>\<open>Save\<close>. \<open>oid\<close> is the id \<open>bson.NewObjectId()\<close> gives, \<open>now\<close> the clock.\<close>

definition MongoStore_Save ::
  "MongoStore \<Rightarrow> string \<Rightarrow> nat \<Rightarrow> http_Request \<Rightarrow> http_ResponseWriter \<Rightarrow> sessions_Session \<Rightarrow> mongo
     \<Rightarrow> panic + (error option \<times> sessions_Session \<times> http_ResponseWriter \<times> mongo)" where
  "MongoStore_Save m oid now r w session db =
     (if MaxAge (SessionOptions session) < 0 then
        (case MongoStore_delete m session db of
           Inl p \<Rightarrow> Inl p
         | Inr (Some err, db') \<Rightarrow> Inr (Some err, session, w, db')
         | Inr (None, db') \<Rightarrow>
             Inr (None, session,
                  SetCookie w (NewCookie (Name session) [] (SessionOptions session)), db'))
      else
        (let session = (if ID session = [] then session\<lparr>ID := Hex oid\<rparr> else session)
         in (case MongoStore_upsert m now session db of
               Inl p \<Rightarrow> Inl p
             | Inr (Some err, db') \<Rightarrow> Inr (Some err, session, w, db')
             | Inr (None, db') \<Rightarrow>
                 (case EncodeID (MongoCodecs m) (Name session) (ID session) of
                    Inl err \<Rightarrow> Inr (Some err, session, w, db')
                  | Inr encoded \<Rightarrow>
                      Inr (None, session,
                           SetCookie w (NewCookie (Name session) encoded (SessionOptions session)),
                           db')))))"

text \<open>mongo.go: the \<open>Options\<close> setter of the wrapped store.\<close>

definition mongoStore_Options :: "MongoStore \<Rightarrow> Options \<Rightarrow> MongoStore" where
  "mongoStore_Options c options =
     c\<lparr>MongoOptions := \<lparr>Path = Path options, Domain = Domain options, MaxAge = MaxAge options,
                         Secure = Secure options, HttpOnly = HttpOnly options\<rparr>\<rparr>"

section \<open>The per-request Session handle\<close>

text \<open>
  The \<open>Store\<close> interface, over any backend state \<open>'w\<close>: what \<open>Get\<close> and \<open>Save\<close> of a
  store do to the session, the response and the backend. \<open>Get\<close> may return a nil session
  with its error.
\<close>

record 'w Store =
  Store_Get ::
    "http_Request \<Rightarrow> string \<Rightarrow> 'w \<Rightarrow> panic + ((sessions_Session option \<times> error option) \<times> 'w)"
  Store_Save ::
    "http_Request \<Rightarrow> http_ResponseWriter \<Rightarrow> sessions_Session \<Rightarrow> 'w
       \<Rightarrow> panic + (error option \<times> sessions_Session \<times> http_ResponseWriter \<times> 'w)"

record 'w Session =
  name :: string
  request :: http_Request
  store :: "'w Store"
  session :: "sessions_Session option"
  valueChanged :: bool
  writer :: http_ResponseWriter

text \<open>\<open>GetSession\<close>: resolved once, then kept; the error of the store is only logged.\<close>

definition GetSession ::
  "'w Session \<Rightarrow> 'w \<Rightarrow> panic + (sessions_Session option \<times> 'w Session \<times> 'w)" where
  "GetSession s wd =
     (if session s = None then
        (case Store_Get (store s) (request s) (name s) wd of
           Inl p \<Rightarrow> Inl p
         | Inr ((g, err), wd') \<Rightarrow> Inr (g, s\<lparr>session := g\<rparr>, wd'))
      else Inr (session s, s, wd))"

text \<open>
  \<open>Save\<close>: \<open>s.GetSession().Save(s.request, s.writer)\<close> is the store's \<open>Save\<close> on the
  resolved session, and a method call on a nil session panics.
\<close>

definition Session_Save ::
  "'w Session \<Rightarrow> 'w \<Rightarrow> panic + (error option \<times> 'w Session \<times> 'w)" where
  "Session_Save s wd =
     (if valueChanged s then
        (case GetSession s wd of
           Inl p \<Rightarrow> Inl p
         | Inr (None, s1, wd1) \<Rightarrow> Inl NilPointerDereference
         | Inr (Some g, s1, wd1) \<Rightarrow>
             (case Store_Save (store s1) (request s1) (writer s1) g wd1 of
                Inl p \<Rightarrow> Inl p
              | Inr (e, g', w', wd2) \<Rightarrow>
                  (let s2 = s1\<lparr>session := Some g', writer := w'\<rparr>
                   in Inr (e, if e = None then s2\<lparr>valueChanged := False\<rparr> else s2, wd2))))
      else Inr (None, s, wd))"

definition Session_Get :: "'w Session \<Rightarrow> val \<Rightarrow> 'w \<Rightarrow> panic + (val option \<times> 'w Session \<times> 'w)" where
  "Session_Get s key wd =
     (case GetSession s wd of
        Inl p \<Rightarrow> Inl p
      | Inr (None, s1, wd1) \<Rightarrow> Inl NilPointerDereference
      | Inr (Some g, s1, wd1) \<Rightarrow> Inr (Values g key, s1, wd1))"

text \<open>\<open>Set\<close> saves at once and drops the error of that save.\<close>

definition Session_Set :: "'w Session \<Rightarrow> val \<Rightarrow> val \<Rightarrow> 'w \<Rightarrow> panic + ('w Session \<times> 'w)" where
  "Session_Set s key v wd =
     (case GetSession s wd of
        Inl p \<Rightarrow> Inl p
      | Inr (None, s1, wd1) \<Rightarrow> Inl NilPointerDereference
      | Inr (Some g, s1, wd1) \<Rightarrow>
          (case Session_Save
                  (s1\<lparr>session := Some (g\<lparr>Values := (Values g)(key \<mapsto> v)\<rparr>),
                      valueChanged := True\<rparr>) wd1 of
             Inl p \<Rightarrow> Inl p
           | Inr (e, s2, wd2) \<Rightarrow> Inr (s2, wd2)))"

definition Session_Delete :: "'w Session \<Rightarrow> val \<Rightarrow> 'w \<Rightarrow> panic + ('w Session \<times> 'w)" where
  "Session_Delete s key wd =
     (case GetSession s wd of
        Inl p \<Rightarrow> Inl p
      | Inr (None, s1, wd1) \<Rightarrow> Inl NilPointerDereference
      | Inr (Some g, s1, wd1) \<Rightarrow>
          Inr (s1\<lparr>session := Some (g\<lparr>Values := (Values g)(key := None)\<rparr>),
                  valueChanged := True\<rparr>, wd1))"

definition Session_Options :: "'w Session \<Rightarrow> Options \<Rightarrow> 'w \<Rightarrow> panic + ('w Session \<times> 'w)" where
  "Session_Options s options wd =
     (case GetSession s wd of
        Inl p \<Rightarrow> Inl p
      | Inr (None, s1, wd1) \<Rightarrow> Inl NilPointerDereference
      | Inr (Some g, s1, wd1) \<Rightarrow>
          Inr (s1\<lparr>session := Some (g\<lparr>SessionOptions :=
                    \<lparr>Path = Path options, Domain = Domain options, MaxAge = MaxAge options,
                     Secure = Secure options, HttpOnly = HttpOnly options\<rparr>\<rparr>)\<rparr>, wd1))"

text \<open>The middleware's handle for a request: no session resolved, nothing changed.\<close>

definition SessionMiddware :: "string \<Rightarrow> 'w Store \<Rightarrow> http_Request \<Rightarrow> http_ResponseWriter \<Rightarrow> 'w Session" where
  "SessionMiddware nm st r w =
     \<lparr>name = nm, request = r, store = st, session = None, valueChanged = False, writer = w\<rparr>"

section \<open>Concrete instances for running the model\<close>

text \<open>
  A codec that marks a value with the cookie name and rejects every string without the
  mark; of a values map it keeps the string under the key \<open>data\<close>.
\<close>

definition marked :: "string \<Rightarrow> string \<Rightarrow> error + string" where
  "marked nm c =
     (if take (length nm + 1) c = nm @ ''|'' then Inr (drop (length nm + 1) c)
      else Inl (CodecError ''securecookie: the value is not valid''))"

definition demo_Codec :: Codec where
  "demo_Codec =
     \<lparr>EncodeID = (\<lambda>nm v. Inr (nm @ ''|'' @ v)),
      DecodeID = marked,
      EncodeValues = (\<lambda>nm m.
         (case m (VStr ''data'') of
            Some (VStr d) \<Rightarrow> Inr (nm @ ''|'' @ d)
          | _ \<Rightarrow> Inr (nm @ ''|''))),
      DecodeValues = (\<lambda>nm c.
         (case marked nm c of
            Inl e \<Rightarrow> Inl e
          | Inr d \<Rightarrow> Inr [VStr ''data'' \<mapsto> VStr d]))\<rparr>"

definition demo_redis :: redis where
  "demo_redis =
     \<lparr>kv = [''session_A1'' \<mapsto> (''sid|hello'', Some 5), ''session_B2'' \<mapsto> (''garbage'', None)],
      unreachable = None, pong = ''PONG''\<rparr>"

definition demo_RediStore :: RediStore where
  "demo_RediStore =
     \<lparr>Client = Some \<lparr>Addr = '':6379'', PoolSize = 100, DialTimeout = Seconds 10,
                      Password = [], closed = False\<rparr>,
      ClusterClient = None, Codecs = demo_Codec,
      StoreOptions = \<lparr>Path = ''/'', Domain = [], MaxAge = sessionExpire,
                       Secure = False, HttpOnly = False\<rparr>,
      DefaultMaxAge = 60 * 30, maxLength = 4096, keyPrefix = ''session_'', IsCluster = False\<rparr>"

definition demo_session :: sessions_Session where
  "demo_session =
     \<lparr>ID = ''A1'', Values = [VStr ''data'' \<mapsto> VStr ''hello''],
      SessionOptions = \<lparr>Path = ''/'', Domain = [], MaxAge = 3600, Secure = False, HttpOnly = False\<rparr>,
      IsNew = False, Name = ''sid''\<rparr>"

definition demo_oid :: string where
  "demo_oid = ''abcdefghijkl''"

definition demo_mongo :: mongo where
  "demo_mongo =
     \<lparr>docs = [demo_oid \<mapsto> \<lparr>Id = demo_oid, Data = ''sid|hello'', Modified = 7\<rparr>],
      ttl_index = None, db_unreachable = None\<rparr>"

definition demo_MongoStore :: MongoStore where
  "demo_MongoStore =
     \<lparr>MongoCodecs = demo_Codec,
      MongoOptions = \<lparr>Path = ''/'', Domain = [], MaxAge = 3600, Secure = False, HttpOnly = False\<rparr>\<rparr>"

text \<open>The demo session marked for deletion.\<close>

definition expired_session :: sessions_Session where
  "expired_session =
     demo_session\<lparr>SessionOptions :=
       \<lparr>Path = ''/'', Domain = [], MaxAge = - 1, Secure = False, HttpOnly = False\<rparr>\<rparr>"

text \<open>The cache store behind the \<open>Store\<close> interface, with an empty registry.\<close>

definition RediStore_Store :: "RediStore \<Rightarrow> string \<Rightarrow> redis Store" where
  "RediStore_Store rs fresh =
     \<lparr>Store_Get = (\<lambda>r nm srv.
         (case RediStore_New rs r nm srv of
            Inl p \<Rightarrow> Inl p
          | Inr (g, err) \<Rightarrow> Inr ((Some g, err), srv))),
      Store_Save = RediStore_Save rs fresh\<rparr>"

text \<open>A handle whose session is resolved and changed, on the single-node store.\<close>

definition demo_handle :: "redis Session" where
  "demo_handle =
     \<lparr>name = ''sid'', request = \<lparr>Cookies = []\<rparr>, store = RediStore_Store demo_RediStore ''F1'',
      session = Some demo_session, valueChanged = True, writer = []\<rparr>"

definition demo_addresses :: "string list" where
  "demo_addresses = ['':6380'', '':6381'', '':6382'', '':6383'', '':6384'', '':6385'']"

section \<open>Construction of the cache store\<close>

lemma NewRediStore_cluster_too_few:
  "length address < 6 \<Longrightarrow>
   NewRediStore cfp True poolsize address password keyPairs srv
     = Inl (Panic ''cluster mode. redis cluster address error. count < 6'')"
  by (simp add: NewRediStore_def)

lemma NewRediStore_single_too_many:
  "length address > 1 \<Longrightarrow>
   NewRediStore cfp False poolsize address password keyPairs srv
     = Inl (Panic ''single mode. redis address error. count > 1'')"
  by (simp add: NewRediStore_def)

text \<open>
  C9. In single-node mode an empty address list passes the check \<open>len(address) > 1\<close> and
  reaches \<open>address[0]\<close>: the constructor ends in the index-out-of-range panic of the
  run time, whatever the other arguments and the state of the server, and not in the
  address-count panic of the check.
\<close>

theorem NewRediStore_single_empty_index_panic:
  "NewRediStore cfp False poolsize [] password keyPairs srv = Inl (IndexOutOfRange 0 0)
   \<and> NewRediStore cfp False poolsize [] password keyPairs srv
       \<noteq> Inl (Panic ''single mode. redis address error. count > 1'')"
  by (simp add: NewRediStore_def)

text \<open>
  C6. The claim asks for the address-count panic on every single-node list that is not
  exactly one address long. On too few cluster addresses and on more than one single-node
  address the constructor does panic with its message before the ping (the two lemmas
  above); on the empty single-node list, run here with pool size 100 and no password, it
  stops in the index panic instead.
\<close>

theorem NewRediStore_single_empty_run:
  "NewRediStore (\<lambda>kp. demo_Codec) False 100 [] [] [] demo_redis = Inl (IndexOutOfRange 0 0)"
  by (simp add: NewRediStore_def)

text \<open>\<open>Close\<close> never touches the cluster client, whatever the store.\<close>

lemma Close_keeps_ClusterClient: "Close s = Inr (e, s') \<Longrightarrow> ClusterClient s' = ClusterClient s"
  by (auto simp: Close_def split: option.splits)

text \<open>
  C10. A store that \<open>NewRediStore\<close> built in cluster mode has a nil single-node client;
  \<open>Close\<close> dereferences it and panics, and the cluster client the store holds is still
  open: no call of \<open>Close\<close> closes it.
\<close>

theorem cluster_store_Close_panics:
  assumes "NewRediStore cfp True poolsize address password keyPairs srv = Inr (rs, err)"
  shows "Client rs = None
    \<and> Close rs = Inl NilPointerDereference
    \<and> (\<exists>c. ClusterClient rs = Some c \<and> \<not> cluster_closed c)"
  using assms
  by (auto simp: NewRediStore_def Close_def Let_def split: if_splits sum.splits prod.splits)

theorem cluster_store_Close_panics_witness:
  "\<exists>rs. NewRediStore (\<lambda>kp. demo_Codec) True 100 demo_addresses [] [] demo_redis = Inr (rs, None)
     \<and> Client rs = None
     \<and> Close rs = Inl NilPointerDereference
     \<and> (\<exists>c. ClusterClient rs = Some c \<and> \<not> cluster_closed c)"
proof -
  obtain rs where built:
    "NewRediStore (\<lambda>kp. demo_Codec) True 100 demo_addresses [] [] demo_redis = Inr (rs, None)"
    by (simp add: NewRediStore_def demo_addresses_def ping_def client_of_def Ping_Result_def
        demo_redis_def)
  from cluster_store_Close_panics [OF built] built show ?thesis by blast
qed

section \<open>Loading a session from the cache\<close>

text \<open>
  With the server out of reach \<open>load\<close> returns nil on every store whose client is set:
  the error of the \<open>Get\<close> is dropped.
\<close>

lemma RediStore_load_unreachable:
  "RediStore_load s g (srv\<lparr>unreachable := Some e\<rparr>)
     = (case client_of s of Inl p \<Rightarrow> Inl p | Inr u \<Rightarrow> Inr (None, g))"
  by (simp add: RediStore_load_def Get_Result_def split: sum.splits)

text \<open>
  C3. The claim wants a connectivity error met in \<open>load\<close> to reach the caller. Run on
  the single-node store with a server that refuses the connection, \<open>load\<close> returns no
  error and the session as it was.
\<close>

theorem RediStore_load_drops_connection_error:
  "RediStore_load demo_RediStore demo_session
     (demo_redis\<lparr>unreachable := Some (ConnError ''dial tcp: connection refused'')\<rparr>)
   = Inr (None, demo_session)"
  by (simp add: RediStore_load_def demo_RediStore_def client_of_def Get_Result_def demo_redis_def)

text \<open>
  C2. The claim wants the session of \<open>New\<close> to stay new when \<open>load\<close> finds no record.
  Run on a request whose cookie decodes to the id \<open>ZZ\<close>, which the server does not hold:
  \<open>load\<close> returns nil, and \<open>New\<close> returns no error and a session with \<open>IsNew = false\<close>.
\<close>

theorem RediStore_New_missing_record_not_new:
  "RediStore_New demo_RediStore \<lparr>Cookies = [(''sid'', ''sid|ZZ'')]\<rparr> ''sid'' demo_redis
   = Inr (\<lparr>ID = ''ZZ'', Values = Map.empty,
           SessionOptions = \<lparr>Path = ''/'', Domain = [], MaxAge = sessionExpire,
                             Secure = False, HttpOnly = False\<rparr>,
           IsNew = False, Name = ''sid''\<rparr>, None)"
  by (simp add: RediStore_New_def RediStore_load_def demo_RediStore_def client_of_def
      Get_Result_def demo_redis_def Cookie_def NewSession_def demo_Codec_def marked_def)

section \<open>New on a cookie that does not load\<close>

lemma RediStore_New_error_new_empty:
  "RediStore_New s r nm srv = Inr (g, Some e) \<Longrightarrow> IsNew g \<and> Values g = Map.empty"
  by (auto simp: RediStore_New_def RediStore_load_def NewSession_def Let_def
      split: sum.splits prod.splits if_splits)

lemma RediStore_New_decode_fails:
  "Cookie r nm = Inr c \<Longrightarrow> DecodeID (Codecs s) nm c = Inl e \<Longrightarrow>
   RediStore_New s r nm srv
     = Inr ((NewSession nm)\<lparr>SessionOptions := StoreOptions s, IsNew := True\<rparr>, Some e)"
  by (simp add: RediStore_New_def)

lemma RediStore_New_load_fails:
  "Cookie r nm = Inr c \<Longrightarrow> DecodeID (Codecs s) nm c = Inr sid \<Longrightarrow>
   RediStore_load s
      ((NewSession nm)\<lparr>SessionOptions := StoreOptions s, IsNew := True, ID := sid\<rparr>) srv
     = Inr (Some e, g) \<Longrightarrow>
   RediStore_New s r nm srv
     = Inr ((NewSession nm)\<lparr>SessionOptions := StoreOptions s, IsNew := True, ID := sid\<rparr>, Some e)"
  by (auto simp: RediStore_New_def RediStore_load_def Let_def
      split: sum.splits prod.splits if_splits)

text \<open>
  C1, as the code has it. For a request that carries the cookie: when the decode of the
  cookie fails, \<open>New\<close> returns the fresh session (no id, no values, \<open>IsNew = true\<close>)
  together with the error of the decode; when the decode gives an id and \<open>load\<close> fails,
  \<open>New\<close> returns the session with that id, no values and \<open>IsNew = true\<close>, together with
  the error of \<open>load\<close>; and whenever \<open>New\<close> returns an error, the session beside it is new
  and has no values. The error is returned to the caller, not dropped.
\<close>

theorem RediStore_New_failure_returns_error:
  assumes "Cookie r nm = Inr c"
  shows "(DecodeID (Codecs s) nm c = Inl e \<longrightarrow>
            RediStore_New s r nm srv
              = Inr ((NewSession nm)\<lparr>SessionOptions := StoreOptions s, IsNew := True\<rparr>, Some e))
       \<and> (DecodeID (Codecs s) nm c = Inr sid
            \<and> RediStore_load s
                 ((NewSession nm)\<lparr>SessionOptions := StoreOptions s, IsNew := True, ID := sid\<rparr>) srv
               = Inr (Some e, g) \<longrightarrow>
            RediStore_New s r nm srv
              = Inr ((NewSession nm)\<lparr>SessionOptions := StoreOptions s, IsNew := True, ID := sid\<rparr>,
                     Some e))
       \<and> (\<forall>g' e'. RediStore_New s r nm srv = Inr (g', Some e') \<longrightarrow>
             IsNew g' \<and> Values g' = Map.empty)"
  using assms RediStore_New_decode_fails RediStore_New_load_fails RediStore_New_error_new_empty
  by blast

section \<open>Save on a session marked for deletion\<close>

lemma RediStore_delete_cases:
  "RediStore_delete s g srv = Inr (e, srv') \<Longrightarrow>
     (e = None \<and> kv srv' (keyPrefix s @ ID g) = None) \<or> (e \<noteq> None \<and> srv' = srv)"
  by (auto simp: RediStore_delete_def Del_Result_def split: sum.splits option.splits)

lemma RediStore_delete_Values:
  "RediStore_delete s (g\<lparr>Values := v\<rparr>) srv = RediStore_delete s g srv"
  by (simp add: RediStore_delete_def split: sum.splits)

lemma RediStore_delete_returns:
  "client_of s = Inr () \<Longrightarrow> \<exists>e srv'. RediStore_delete s g srv = Inr (e, srv')"
  by (simp add: RediStore_delete_def split: prod.splits)

lemma RediStore_Save_expire_ok:
  "MaxAge (SessionOptions g) < 0 \<Longrightarrow> RediStore_delete s g srv = Inr (None, srv') \<Longrightarrow>
   RediStore_Save s fresh r w g srv
     = Inr (None, g, w @ [NewCookie (Name g) [] (SessionOptions g)], srv')"
  by (simp add: RediStore_Save_def SetCookie_def)

lemma RediStore_Save_expire_err:
  "MaxAge (SessionOptions g) < 0 \<Longrightarrow> RediStore_delete s g srv = Inr (Some e, srv') \<Longrightarrow>
   RediStore_Save s fresh r w g srv = Inr (Some e, g, w, srv')"
  by (simp add: RediStore_Save_def)

lemma RediStore_Save_expire_payload:
  "MaxAge (SessionOptions g) < 0 \<Longrightarrow>
   RediStore_Save s fresh r w (g\<lparr>Values := v\<rparr>) srv
     = map_sum id (\<lambda>(e, g', rest). (e, g'\<lparr>Values := v\<rparr>, rest))
         (RediStore_Save s fresh r w g srv)"
  by (simp add: RediStore_Save_def RediStore_delete_Values NewCookie_def
      split: sum.splits prod.splits option.splits)

text \<open>The hexadecimal form of an id decodes to the id; a string that passes the check
  decodes to twelve bytes, so \<open>ObjectIdHex\<close> does not panic behind the check.\<close>

lemma fromHexChar_hextable_all:
  "list_all (\<lambda>i. fromHexChar (hextable ! i) = Some i) [0..<16]"
  by code_simp

lemma fromHexChar_hextable: "i < 16 \<Longrightarrow> fromHexChar (hextable ! i) = Some i"
  using fromHexChar_hextable_all by (simp add: list_all_iff)

lemma DecodeString_EncodeToString: "DecodeString (EncodeToString bs) = Some bs"
proof (induction bs)
  case Nil
  then show ?case by simp
next
  case (Cons c cs)
  have lt: "(of_char c :: nat) < 256" by simp
  have hi: "fromHexChar (hextable ! ((of_char c :: nat) div 16)) = Some ((of_char c :: nat) div 16)"
    using lt by (intro fromHexChar_hextable) linarith
  have lo: "fromHexChar (hextable ! ((of_char c :: nat) mod 16)) = Some ((of_char c :: nat) mod 16)"
    by (intro fromHexChar_hextable) simp
  have joined: "char_of (16 * ((of_char c :: nat) div 16) + (of_char c :: nat) mod 16) = c"
    by simp
  show ?case using Cons hi lo joined by simp
qed

lemma length_EncodeToString: "length (EncodeToString bs) = 2 * length bs"
  by (induction bs) simp_all

lemma IsObjectIdHex_Hex: "length oid = 12 \<Longrightarrow> IsObjectIdHex (Hex oid)"
  by (simp add: IsObjectIdHex_def Hex_def DecodeString_EncodeToString length_EncodeToString)

lemma ObjectIdHex_Hex: "length oid = 12 \<Longrightarrow> ObjectIdHex (Hex oid) = Inr oid"
  by (simp add: ObjectIdHex_def Hex_def DecodeString_EncodeToString)

lemma length_DecodeString: "DecodeString s = Some d \<Longrightarrow> length s = 2 * length d"
  by (induction s arbitrary: d rule: DecodeString.induct) (auto split: option.splits)

lemma ObjectIdHex_valid: "IsObjectIdHex s \<Longrightarrow> \<exists>d. ObjectIdHex s = Inr d \<and> length d = 12"
proof -
  assume "IsObjectIdHex s"
  then obtain d where d: "DecodeString s = Some d" and l: "length s = 24"
    by (auto simp: IsObjectIdHex_def split: if_splits)
  from length_DecodeString [OF d] l have "length d = 12" by simp
  with d show ?thesis by (simp add: ObjectIdHex_def)
qed

lemma MongoStore_delete_cases:
  "MongoStore_delete m g db = Inr (e, db') \<Longrightarrow>
     (e = None \<and> (\<exists>d. ObjectIdHex (ID g) = Inr d \<and> docs db d \<noteq> None \<and> docs db' d = None))
     \<or> (e \<noteq> None \<and> db' = db)"
  by (auto simp: MongoStore_delete_def RemoveId_def split: sum.splits option.splits if_splits)

lemma MongoStore_delete_returns: "\<exists>e db'. MongoStore_delete m g db = Inr (e, db')"
proof (cases "IsObjectIdHex (ID g)")
  case True
  then obtain d where "ObjectIdHex (ID g) = Inr d" using ObjectIdHex_valid by blast
  with True show ?thesis by (simp add: MongoStore_delete_def split: prod.splits)
next
  case False
  then show ?thesis by (simp add: MongoStore_delete_def)
qed

lemma MongoStore_delete_Values:
  "MongoStore_delete m (g\<lparr>Values := v\<rparr>) db = MongoStore_delete m g db"
  by (simp add: MongoStore_delete_def split: sum.splits)

lemma MongoStore_Save_expire_ok:
  "MaxAge (SessionOptions g) < 0 \<Longrightarrow> MongoStore_delete m g db = Inr (None, db') \<Longrightarrow>
   MongoStore_Save m oid now r w g db
     = Inr (None, g, w @ [NewCookie (Name g) [] (SessionOptions g)], db')"
  by (simp add: MongoStore_Save_def SetCookie_def)

lemma MongoStore_Save_expire_err:
  "MaxAge (SessionOptions g) < 0 \<Longrightarrow> MongoStore_delete m g db = Inr (Some e, db') \<Longrightarrow>
   MongoStore_Save m oid now r w g db = Inr (Some e, g, w, db')"
  by (simp add: MongoStore_Save_def)

lemma MongoStore_Save_expire_payload:
  "MaxAge (SessionOptions g) < 0 \<Longrightarrow>
   MongoStore_Save m oid now r w (g\<lparr>Values := v\<rparr>) db
     = map_sum id (\<lambda>(e, g', rest). (e, g'\<lparr>Values := v\<rparr>, rest))
         (MongoStore_Save m oid now r w g db)"
  by (simp add: MongoStore_Save_def MongoStore_delete_Values NewCookie_def
      split: sum.splits prod.splits option.splits)

text \<open>
  C4. On a session whose \<open>MaxAge\<close> is negative, in both stores: when the store's delete
  returns no error, \<open>Save\<close> returns no error, the backend holds no record under the
  session's id, and the response has one more cookie, of the session's name and options and
  with the empty value; when the delete returns an error (the backend's, or on the document
  store a malformed id or an absent document), \<open>Save\<close> returns that error, the response is
  as it was and so is the backend; and the values of the session play no part: with any
  other values the error, the response and the backend are the same.
\<close>

theorem Save_negative_MaxAge_deletes:
  assumes neg: "MaxAge (SessionOptions g) < 0"
  shows
    "(RediStore_delete s g srv = Inr (None, srv') \<longrightarrow>
        RediStore_Save s fresh r w g srv
          = Inr (None, g, w @ [NewCookie (Name g) [] (SessionOptions g)], srv')
        \<and> kv srv' (keyPrefix s @ ID g) = None)
   \<and> (RediStore_delete s g srv = Inr (Some e, srv') \<longrightarrow>
        RediStore_Save s fresh r w g srv = Inr (Some e, g, w, srv') \<and> srv' = srv)
   \<and> RediStore_Save s fresh r w (g\<lparr>Values := v\<rparr>) srv
        = map_sum id (\<lambda>(e, g', rest). (e, g'\<lparr>Values := v\<rparr>, rest))
            (RediStore_Save s fresh r w g srv)
   \<and> (MongoStore_delete m g db = Inr (None, db') \<longrightarrow>
        MongoStore_Save m oid now r w g db
          = Inr (None, g, w @ [NewCookie (Name g) [] (SessionOptions g)], db')
        \<and> (\<exists>d. ObjectIdHex (ID g) = Inr d \<and> docs db' d = None))
   \<and> (MongoStore_delete m g db = Inr (Some e, db') \<longrightarrow>
        MongoStore_Save m oid now r w g db = Inr (Some e, g, w, db') \<and> db' = db)
   \<and> MongoStore_Save m oid now r w (g\<lparr>Values := v\<rparr>) db
        = map_sum id (\<lambda>(e, g', rest). (e, g'\<lparr>Values := v\<rparr>, rest))
            (MongoStore_Save m oid now r w g db)"
proof (intro conjI impI)
  assume d: "RediStore_delete s g srv = Inr (None, srv')"
  show "RediStore_Save s fresh r w g srv
          = Inr (None, g, w @ [NewCookie (Name g) [] (SessionOptions g)], srv')"
    by (rule RediStore_Save_expire_ok [OF neg d])
  show "kv srv' (keyPrefix s @ ID g) = None"
    using RediStore_delete_cases [OF d] by simp
next
  assume d: "RediStore_delete s g srv = Inr (Some e, srv')"
  show "RediStore_Save s fresh r w g srv = Inr (Some e, g, w, srv')"
    by (rule RediStore_Save_expire_err [OF neg d])
  show "srv' = srv" using RediStore_delete_cases [OF d] by simp
next
  show "RediStore_Save s fresh r w (g\<lparr>Values := v\<rparr>) srv
        = map_sum id (\<lambda>(e, g', rest). (e, g'\<lparr>Values := v\<rparr>, rest))
            (RediStore_Save s fresh r w g srv)"
    by (rule RediStore_Save_expire_payload [OF neg])
next
  assume d: "MongoStore_delete m g db = Inr (None, db')"
  show "MongoStore_Save m oid now r w g db
          = Inr (None, g, w @ [NewCookie (Name g) [] (SessionOptions g)], db')"
    by (rule MongoStore_Save_expire_ok [OF neg d])
  show "\<exists>d. ObjectIdHex (ID g) = Inr d \<and> docs db' d = None"
    using MongoStore_delete_cases [OF d] by auto
next
  assume d: "MongoStore_delete m g db = Inr (Some e, db')"
  show "MongoStore_Save m oid now r w g db = Inr (Some e, g, w, db')"
    by (rule MongoStore_Save_expire_err [OF neg d])
  show "db' = db" using MongoStore_delete_cases [OF d] by simp
next
  show "MongoStore_Save m oid now r w (g\<lparr>Values := v\<rparr>) db
        = map_sum id (\<lambda>(e, g', rest). (e, g'\<lparr>Values := v\<rparr>, rest))
            (MongoStore_Save m oid now r w g db)"
    by (rule MongoStore_Save_expire_payload [OF neg])
qed

end
